theory Spec2Isabelle
  imports Main
begin

section \<open>Values shared by the catalog modules\<close>

text \<open>
  A \<open>Decimal\<close> with \<open>decimal_places=2\<close> is kept as its number of hundredths.
  \<open>float(d)\<close> of such a decimal is kept symbolic: \<open>Float d\<close> stands for the double nearest
  to \<open>d / 100\<close>; the code never computes with it.
\<close>

type_synonym decimal = int

datatype pyfloat = Float decimal

text \<open>
  The exceptions of the index path: those the search-engine client raises, and the
  \<open>ValueError\<close> of reading \<open>image.url\<close> of a product without image. Then DRF's validation
  error.
\<close>

datatype es_error = ConnectionError | NotFoundError | RequestError | BulkIndexError | ValueError

datatype validation_error = ValidationError string

text \<open>\<open>getattr(obj, name, default)\<close>: an attribute of an engine object is there or not.\<close>

datatype 'a attr = Absent | Attr 'a

definition getattr :: "'a attr \<Rightarrow> 'a \<Rightarrow> 'a" where
  "getattr a d = (case a of Absent \<Rightarrow> d | Attr v \<Rightarrow> v)"

text \<open>\<open>d.get(key, default)\<close> on a dict whose key may be missing.\<close>

definition dict_get :: "'a option \<Rightarrow> 'a \<Rightarrow> 'a" where
  "dict_get v d = (case v of None \<Rightarrow> d | Some x \<Rightarrow> x)"


section \<open>SearchQuerySerializer (catalog/serializers.py)\<close>

text \<open>
  \<open>validated_data\<close> of \<open>SearchQuerySerializer\<close>: a dict with one optional key per declared
  field. \<open>category\<close> holds the list \<open>validate_category\<close> returned.
\<close>

record validated_data =
  vd_q :: "string option"
  vd_category :: "int list option"
  vd_price_min :: "decimal option"
  vd_price_max :: "decimal option"
  vd_sort :: "string option"
  vd_page :: "int option"
  vd_page_size :: "int option"

definition SORT_CHOICES :: "string list" where
  "SORT_CHOICES = [''relevance'', ''price_asc'', ''price_desc'']"

text \<open>
  \<open>SearchQuerySerializer.validate\<close>: the object-level check of the two price bounds.
\<close>

definition validate :: "validated_data \<Rightarrow> validation_error + validated_data" where
  "validate attrs =
     (let price_min = vd_price_min attrs;
          price_max = vd_price_max attrs
      in if price_min \<noteq> None \<and> price_max \<noteq> None \<and> the price_min > the price_max
         then Inl (ValidationError ''price_min must be <= price_max'')
         else Inr attrs)"

text \<open>
  \<open>SearchQuerySerializer.validate_category\<close>. \<open>str.split(",")\<close> is written out; the
  built-ins \<open>str.strip()\<close> and \<open>int()\<close> are the parameters \<open>py_strip\<close> and \<open>py_int\<close>, the
  latter \<open>None\<close> when it raises \<open>ValueError\<close>.
\<close>

fun split_on :: "char \<Rightarrow> string \<Rightarrow> string list" where
  "split_on c [] = [[]]"
| "split_on c (x # xs) =
     (if x = c then [] # split_on c xs
      else (case split_on c xs of [] \<Rightarrow> [[x]] | w # ws \<Rightarrow> (x # w) # ws))"

definition validate_category ::
  "(string \<Rightarrow> string) \<Rightarrow> (string \<Rightarrow> int option) \<Rightarrow> string option
   \<Rightarrow> validation_error + int list" where
  "validate_category py_strip py_int value =
     (if value = None \<or> value = Some [] then Inr []
      else (case those (map (\<lambda>x. py_int (py_strip x))
                         (filter (\<lambda>x. py_strip x \<noteq> []) (split_on CHR '','' (the value)))) of
              None \<Rightarrow> Inl (ValidationError ''category must be a comma-separated list of integers'')
            | Some ids \<Rightarrow> Inr ids))"

text \<open>
  What the field declarations of \<open>SearchQuerySerializer\<close> guarantee of a validated query:
  \<open>q\<close>, \<open>sort\<close>, \<open>page\<close> and \<open>page_size\<close> have defaults and are always present, \<open>sort\<close> is one
  of \<open>SORT_CHOICES\<close>, \<open>page \<ge> 1\<close>, \<open>1 \<le> page_size \<le> MAX_PAGE_SIZE\<close>, the price bounds are
  non-negative when present, and \<open>validate\<close> accepted the dict.
\<close>

definition valid_search_query :: "int \<Rightarrow> validated_data \<Rightarrow> bool" where
  "valid_search_query MAX_PAGE_SIZE data =
     (vd_q data \<noteq> None
      \<and> (case vd_sort data of None \<Rightarrow> False | Some s \<Rightarrow> s \<in> set SORT_CHOICES)
      \<and> (case vd_page data of None \<Rightarrow> False | Some p \<Rightarrow> 1 \<le> p)
      \<and> (case vd_page_size data of None \<Rightarrow> False | Some n \<Rightarrow> 1 \<le> n \<and> n \<le> MAX_PAGE_SIZE)
      \<and> (case vd_price_min data of None \<Rightarrow> True | Some m \<Rightarrow> 0 \<le> m)
      \<and> (case vd_price_max data of None \<Rightarrow> True | Some m \<Rightarrow> 0 \<le> m)
      \<and> validate data = Inr data)"


subsection \<open>The framework's run of the serializer\<close>

text \<open>
  Modelled from the spec: the framework that runs a serializer is a collaborator outside
  the repository (spec 7: validation errors are reported with field-level detail and
  never reach the query layer; the tests expect a bad category under \<open>category\<close> and
  reversed prices under \<open>non_field_errors\<close>). \<open>request.query_params\<close> gives the raw text of
  each parameter that is present. Each declared field is converted and checked with the
  options of its declaration (default, \<open>min_value\<close>, \<open>max_value\<close>, choices) and its
  \<open>validate_<field>\<close> hook; \<open>validate\<close> is called only when no field failed, and its error
  is reported under \<open>non_field_errors\<close>. The conversions of \<open>CharField\<close>, \<open>DecimalField\<close> and
  \<open>IntegerField\<close> and the two built-ins are parameters, \<open>None\<close> where they fail.
\<close>

record query_params =
  qp_q :: "string option"
  qp_category :: "string option"
  qp_price_min :: "string option"
  qp_price_max :: "string option"
  qp_sort :: "string option"
  qp_page :: "string option"
  qp_page_size :: "string option"

record conversions =
  char_value :: "string \<Rightarrow> string option"
  decimal_value :: "string \<Rightarrow> decimal option"
  integer_value :: "string \<Rightarrow> int option"
  str_strip :: "string \<Rightarrow> string"
  int_of_str :: "string \<Rightarrow> int option"

datatype 'a field = Omitted | Invalid | Value 'a

datatype serializer_error = Field_errors "string list" | Non_field_errors string

text \<open>No field is required: a missing parameter takes the default, or is left out.\<close>

definition field_value :: "string option \<Rightarrow> 'a option \<Rightarrow> (string \<Rightarrow> 'a option) \<Rightarrow> 'a field" where
  "field_value raw dflt conv =
     (case raw of
        None \<Rightarrow> (case dflt of None \<Rightarrow> Omitted | Some d \<Rightarrow> Value d)
      | Some r \<Rightarrow> (case conv r of None \<Rightarrow> Invalid | Some v \<Rightarrow> Value v))"

definition field_option :: "'a field \<Rightarrow> 'a option" where
  "field_option f = (case f of Value v \<Rightarrow> Some v | Omitted \<Rightarrow> None | Invalid \<Rightarrow> None)"

definition field_error :: "string \<Rightarrow> 'a field \<Rightarrow> string list" where
  "field_error name f = (case f of Invalid \<Rightarrow> [name] | Omitted \<Rightarrow> [] | Value v \<Rightarrow> [])"

text \<open>The declared fields of \<open>SearchQuerySerializer\<close>, lines 100--117.\<close>

definition category_field :: "conversions \<Rightarrow> string \<Rightarrow> int list option" where
  "category_field F r =
     (case char_value F r of
        None \<Rightarrow> None
      | Some v \<Rightarrow> (case validate_category (str_strip F) (int_of_str F) (Some v) of
                    Inl e \<Rightarrow> None
                  | Inr ids \<Rightarrow> Some ids))"

definition price_field :: "conversions \<Rightarrow> string \<Rightarrow> decimal option" where
  "price_field F r =
     (case decimal_value F r of None \<Rightarrow> None | Some d \<Rightarrow> if 0 \<le> d then Some d else None)"

definition sort_field :: "string \<Rightarrow> string option" where
  "sort_field r = (if r \<in> set SORT_CHOICES then Some r else None)"

definition page_field :: "conversions \<Rightarrow> string \<Rightarrow> int option" where
  "page_field F r =
     (case integer_value F r of None \<Rightarrow> None | Some n \<Rightarrow> if 1 \<le> n then Some n else None)"

definition page_size_field :: "conversions \<Rightarrow> int \<Rightarrow> string \<Rightarrow> int option" where
  "page_size_field F MAX_PAGE_SIZE r =
     (case integer_value F r of
        None \<Rightarrow> None
      | Some n \<Rightarrow> if 1 \<le> n \<and> n \<le> MAX_PAGE_SIZE then Some n else None)"

text \<open>
  The field stage: the names of the fields that failed, or the validated dict.
  \<open>PAGE_SIZE\<close> here is the setting \<open>PAGE_SIZE\<close> the serializer takes its default from.
\<close>

definition to_internal_value ::
  "conversions \<Rightarrow> int \<Rightarrow> int \<Rightarrow> query_params \<Rightarrow> string list + validated_data" where
  "to_internal_value F MAX_PAGE_SIZE PAGE_SIZE req =
     (let q = field_value (qp_q req) (Some []) (char_value F);
          category = field_value (qp_category req) None (category_field F);
          price_min = field_value (qp_price_min req) None (price_field F);
          price_max = field_value (qp_price_max req) None (price_field F);
          sort = field_value (qp_sort req) (Some ''relevance'') sort_field;
          page = field_value (qp_page req) (Some 1) (page_field F);
          page_size = field_value (qp_page_size req) (Some PAGE_SIZE)
                        (page_size_field F MAX_PAGE_SIZE);
          errors = field_error ''q'' q @ field_error ''category'' category
                   @ field_error ''price_min'' price_min @ field_error ''price_max'' price_max
                   @ field_error ''sort'' sort @ field_error ''page'' page
                   @ field_error ''page_size'' page_size
      in if errors \<noteq> [] then Inl errors
         else Inr \<lparr>vd_q = field_option q, vd_category = field_option category,
                   vd_price_min = field_option price_min,
                   vd_price_max = field_option price_max, vd_sort = field_option sort,
                   vd_page = field_option page, vd_page_size = field_option page_size\<rparr>)"

text \<open>\<open>is_valid\<close>: the field stage, then \<open>validate\<close>.\<close>

definition run_validation ::
  "conversions \<Rightarrow> int \<Rightarrow> int \<Rightarrow> query_params \<Rightarrow> serializer_error + validated_data" where
  "run_validation F MAX_PAGE_SIZE PAGE_SIZE req =
     (case to_internal_value F MAX_PAGE_SIZE PAGE_SIZE req of
        Inl names \<Rightarrow> Inl (Field_errors names)
      | Inr attrs \<Rightarrow>
          (case validate attrs of
             Inl (ValidationError msg) \<Rightarrow> Inl (Non_field_errors msg)
           | Inr a \<Rightarrow> Inr a))"


section \<open>ProductSearchView (catalog/views.py)\<close>

subsection \<open>The engine's search object and its answer\<close>

datatype query = Match_all | Multi_match string "string list"

record range_kwargs =
  gte :: "pyfloat option"
  lte :: "pyfloat option"

datatype es_filter = Terms_category_id "int list" | Range_price range_kwargs

datatype sort_key = Asc string | Desc string

record search =
  s_query :: "query option"
  s_filters :: "es_filter list"
  s_sort :: "sort_key list"
  s_slice :: "(int \<times> int) option"

text \<open>\<open>ProductDocument.search()\<close>: a search with nothing set.\<close>

definition ProductDocument_search :: search where
  "ProductDocument_search = \<lparr>s_query = None, s_filters = [], s_sort = [], s_slice = None\<rparr>"

text \<open>\<open>s.query(...)\<close>, \<open>s.filter(...)\<close>, \<open>s.sort(...)\<close> and \<open>s[start:end]\<close> return an updated copy.
  A sort argument with a leading minus sign asks for descending order.\<close>

definition search_query :: "search \<Rightarrow> query \<Rightarrow> search" where
  "search_query s qu = s\<lparr>s_query := Some qu\<rparr>"

definition search_filter :: "search \<Rightarrow> es_filter \<Rightarrow> search" where
  "search_filter s f = s\<lparr>s_filters := s_filters s @ [f]\<rparr>"

fun sort_arg :: "string \<Rightarrow> sort_key" where
  "sort_arg (c # cs) = (if c = CHR ''-'' then Desc cs else Asc (c # cs))"
| "sort_arg [] = Asc []"

definition search_sort :: "search \<Rightarrow> string \<Rightarrow> search" where
  "search_sort s key = s\<lparr>s_sort := [sort_arg key]\<rparr>"

definition search_slice :: "search \<Rightarrow> int \<Rightarrow> int \<Rightarrow> search" where
  "search_slice s start stop = s\<lparr>s_slice := Some (start, stop)\<rparr>"

text \<open>
  The engine's answer: \<open>results.hits.total\<close> is a plain number or an object with a \<open>value\<close>
  attribute (and a relation); iterating \<open>results\<close> gives the hits. The fields the index
  schema of catalog/documents.py always writes are plain fields of a hit. \<open>description\<close>
  and \<open>image\<close> may be missing from the hit's source (\<open>None\<close>), and \<open>meta.score\<close> may be a
  missing attribute.

  A hit of \<open>ProductDocument.search()\<close> is a \<open>ProductDocument\<close>. Reading a declared field
  of it never raises \<open>AttributeError\<close>: for a field its source lacks the object answers
  \<open>None\<close>. \<open>Document_getattr\<close> is that read. \<open>hit.meta\<close> is a plain attribute object, where a
  missing attribute does raise.
\<close>

datatype hits_total = Total_scalar int | Total_object int string

record 'f hit =
  hit_meta_id :: string
  hit_meta_score :: "'f option attr"
  hit_category_id :: int
  hit_category_name :: string
  hit_name :: string
  hit_price :: 'f
  hit_description :: "string option"
  hit_image :: "string option"

definition Document_getattr :: "'a option \<Rightarrow> 'a option attr" where
  "Document_getattr source_value = Attr source_value"

record 'f es_response =
  er_total :: hits_total
  er_hits :: "'f hit list"

record 'f item =
  it_id :: string
  it_category :: int
  it_category_name :: string
  it_name :: string
  it_price :: 'f
  it_description :: "string option"
  it_image :: "string option"
  it_score :: "'f option"

record 'f payload =
  rs_count :: int
  rs_page :: int
  rs_page_size :: int
  rs_has_next :: bool
  rs_has_prev :: bool
  rs_results :: "'f item list"

subsection \<open>ProductSearchView.get\<close>

text \<open>
  Lines 146--193 of \<open>get\<close>: the search object built from the validated query.
  \<open>PAGE_SIZE\<close> is the setting \<open>REST_FRAMEWORK['PAGE_SIZE']\<close> (20 when unset).
\<close>

definition build_search :: "int \<Rightarrow> validated_data \<Rightarrow> search" where
  "build_search PAGE_SIZE data =
     (let q = dict_get (vd_q data) [];
          categories = dict_get (vd_category data) [];
          price_min = vd_price_min data;
          price_max = vd_price_max data;
          sort = vd_sort data;
          page = dict_get (vd_page data) 1;
          page_size = dict_get (vd_page_size data) PAGE_SIZE;
          s = ProductDocument_search;
          s = (if q \<noteq> [] then search_query s (Multi_match q [''name^3'', ''description''])
               else search_query s Match_all);
          s = (if categories \<noteq> [] then search_filter s (Terms_category_id categories) else s);
          s = (if price_min \<noteq> None \<or> price_max \<noteq> None then
                 (let range_kwargs = \<lparr>gte = None, lte = None\<rparr>;
                      range_kwargs = (if price_min \<noteq> None
                                      then range_kwargs\<lparr>gte := Some (Float (the price_min))\<rparr>
                                      else range_kwargs);
                      range_kwargs = (if price_max \<noteq> None
                                      then range_kwargs\<lparr>lte := Some (Float (the price_max))\<rparr>
                                      else range_kwargs)
                  in search_filter s (Range_price range_kwargs))
               else s);
          s = (if sort = Some ''price_asc'' then search_sort s ''price''
               else if sort = Some ''price_desc'' then search_sort s ''-price''
               else if q = [] then search_sort s ''id''
               else s);
          start = (page - 1) * page_size;
          stop = start + page_size
      in search_slice s start stop)"

text \<open>Lines 197--198: the total as a plain integer.\<close>

definition hits_total_value :: "hits_total \<Rightarrow> int" where
  "hits_total_value t = (case t of Total_object v rel \<Rightarrow> v | Total_scalar n \<Rightarrow> n)"

text \<open>
  Lines 202--211: the dict built for one hit. A value of the dict that may be \<open>None\<close> is an
  option; the default \<open>""\<close> of the two \<open>getattr\<close> calls is \<open>Some []\<close>.
\<close>

definition item_of_hit :: "'f hit \<Rightarrow> 'f item" where
  "item_of_hit h =
     \<lparr>it_id = hit_meta_id h,
      it_category = hit_category_id h,
      it_category_name = hit_category_name h,
      it_name = hit_name h,
      it_price = hit_price h,
      it_description = getattr (Document_getattr (hit_description h)) (Some []),
      it_image = getattr (Document_getattr (hit_image h)) (Some []),
      it_score = getattr (hit_meta_score h) None\<rparr>"

text \<open>
  \<open>get\<close>, from the validated query on. \<open>test_mode\<close> is \<open>'test' in sys.argv\<close>; \<open>execute\<close> is
  the engine's \<open>s.execute()\<close>, whose exception the view does not catch.
\<close>

definition ProductSearchView_get ::
  "bool \<Rightarrow> int \<Rightarrow> (search \<Rightarrow> es_error + 'f es_response) \<Rightarrow> validated_data
   \<Rightarrow> es_error + 'f payload" where
  "ProductSearchView_get test_mode PAGE_SIZE execute data =
     (if test_mode then
        (let page = dict_get (vd_page data) 1;
             page_size = dict_get (vd_page_size data) PAGE_SIZE
         in Inr \<lparr>rs_count = 0, rs_page = page, rs_page_size = page_size,
                 rs_has_next = False, rs_has_prev = (page > 1), rs_results = []\<rparr>)
      else
        (let page = dict_get (vd_page data) 1;
             page_size = dict_get (vd_page_size data) PAGE_SIZE;
             start = (page - 1) * page_size;
             stop = start + page_size
         in case execute (build_search PAGE_SIZE data) of
              Inl e \<Rightarrow> Inl e
            | Inr results \<Rightarrow>
                (let total = hits_total_value (er_total results);
                     items = map item_of_hit (er_hits results)
                 in Inr \<lparr>rs_count = total, rs_page = page, rs_page_size = page_size,
                         rs_has_next = (stop < total), rs_has_prev = (start > 0),
                         rs_results = items\<rparr>)))"


section \<open>Models and the category serializer (catalog/models.py, catalog/serializers.py)\<close>

text \<open>
  A \<open>Product\<close> instance carries its resolved \<open>category\<close> object, as \<open>instance.category\<close>
  does. The relational store lists the categories and the products.
\<close>

record category =
  cat_id :: int
  cat_name :: string
  cat_description :: string
  cat_image :: "string option"

record product =
  prod_id :: int
  prod_category :: category
  prod_name :: string
  prod_price :: decimal
  prod_image :: "string option"
  prod_description :: string

record database =
  db_categories :: "category list"
  db_products :: "product list"

text \<open>
  \<open>instance.products.all()\<close> for a category \<open>instance\<close>: the products whose foreign key is
  the instance's id, each bound to \<open>instance\<close> as its category.
\<close>

definition products_all :: "database \<Rightarrow> category \<Rightarrow> product list" where
  "products_all db instance =
     map (\<lambda>p. p\<lparr>prod_category := instance\<rparr>)
         (filter (\<lambda>p. cat_id (prod_category p) = cat_id instance) (db_products db))"

text \<open>
  \<open>CategorySerializer.validate_name\<close>. \<open>instance\<close> is \<open>self.instance\<close>: the category being
  updated, or \<open>None\<close> on create. The source message is in Russian; it is given in English.
\<close>

definition validate_name ::
  "database \<Rightarrow> category option \<Rightarrow> string \<Rightarrow> validation_error + string" where
  "validate_name db instance value =
     (if list_ex (\<lambda>c. cat_name c = value) (db_categories db)
      then Inl (ValidationError ''A category with this name already exists'')
      else Inr value)"


section \<open>The search document and the engine (catalog/documents.py)\<close>

text \<open>
  The fields \<open>ProductDocument\<close> declares, filled from a product: \<open>id\<close>, \<open>name\<close>,
  \<open>description\<close>, \<open>price\<close> as a float, the \<open>category\<close> object with id and name,
  \<open>category_id\<close> from \<open>category.id\<close>, and \<open>image\<close> from \<open>image.url\<close>. Reading \<open>image.url\<close> of a
  product without image raises \<open>ValueError\<close> (the read \<open>get_image_url\<close> of catalog/models.py
  guards), so no document is built for such a product. The \<open>suggest\<close> field plays no part
  here and is left out.
\<close>

record search_document =
  doc_id :: int
  doc_name :: string
  doc_description :: string
  doc_price :: pyfloat
  doc_category :: "int \<times> string"
  doc_category_id :: int
  doc_image :: string

definition prepare :: "product \<Rightarrow> es_error + search_document" where
  "prepare p =
     (case prod_image p of
        None \<Rightarrow> Inl ValueError
      | Some url \<Rightarrow>
          Inr \<lparr>doc_id = prod_id p,
               doc_name = prod_name p,
               doc_description = prod_description p,
               doc_price = Float (prod_price p),
               doc_category = (cat_id (prod_category p), cat_name (prod_category p)),
               doc_category_id = cat_id (prod_category p),
               doc_image = url\<rparr>)"

text \<open>
  Modelled from the spec: the search engine and its client are a collaborator outside
  the repository (spec 6: upsert-by-id, delete-by-id, index create and delete, with
  ``not found'' reported by the engine). The index is a flag for its existence and the
  documents by id. What the engine does wrong on a call is given from outside:
  \<open>fault_index_delete\<close> and \<open>fault_index_create\<close> for the two index calls, \<open>fault_upsert\<close> and
  \<open>fault_delete\<close> by product id for the document calls. A document call goes through the
  client's bulk helper: a per-document error (\<open>BulkIndexError\<close>, which includes deleting a
  document that is not there) is raised only when \<open>raise_on_error\<close> is true; any other
  error is raised always. An index delete of a missing index answers 404, which raises
  \<open>NotFoundError\<close> unless 404 is in \<open>ignore\<close>.
\<close>

record es_index =
  ix_exists :: bool
  ix_docs :: "int \<rightharpoonup> search_document"

record engine_faults =
  fault_index_delete :: "es_error option"
  fault_index_create :: "es_error option"
  fault_upsert :: "(int \<times> es_error) list"
  fault_delete :: "(int \<times> es_error) list"

datatype action = Index | Delete

datatype bulk_action = Index_doc search_document | Delete_doc int

definition es_index_delete :: "engine_faults \<Rightarrow> nat list \<Rightarrow> es_index \<Rightarrow> es_error + es_index" where
  "es_index_delete env ignore ix =
     (case fault_index_delete env of
        Some e \<Rightarrow> Inl e
      | None \<Rightarrow>
          if ix_exists ix then Inr \<lparr>ix_exists = False, ix_docs = Map.empty\<rparr>
          else if 404 \<in> set ignore then Inr ix
          else Inl NotFoundError)"

definition es_index_create :: "engine_faults \<Rightarrow> es_index \<Rightarrow> es_error + es_index" where
  "es_index_create env ix =
     (case fault_index_create env of
        Some e \<Rightarrow> Inl e
      | None \<Rightarrow>
          if ix_exists ix then Inl RequestError
          else Inr \<lparr>ix_exists = True, ix_docs = Map.empty\<rparr>)"

definition bulk_error :: "engine_faults \<Rightarrow> bulk_action \<Rightarrow> es_index \<Rightarrow> es_error option" where
  "bulk_error env a ix =
     (case a of
        Index_doc d \<Rightarrow> map_of (fault_upsert env) (doc_id d)
      | Delete_doc i \<Rightarrow>
          (case map_of (fault_delete env) i of
             Some e \<Rightarrow> Some e
           | None \<Rightarrow> if ix_docs ix i = None then Some BulkIndexError else None))"

definition es_bulk ::
  "engine_faults \<Rightarrow> bool \<Rightarrow> bulk_action \<Rightarrow> es_index \<Rightarrow> (es_error + unit) \<times> es_index" where
  "es_bulk env raise_on_error a ix =
     (case bulk_error env a ix of
        Some e \<Rightarrow> if e = BulkIndexError \<and> \<not> raise_on_error then (Inr (), ix) else (Inl e, ix)
      | None \<Rightarrow>
          (case a of
             Index_doc d \<Rightarrow> (Inr (), ix\<lparr>ix_exists := True,
                                         ix_docs := (ix_docs ix)(doc_id d \<mapsto> d)\<rparr>)
           | Delete_doc i \<Rightarrow> (Inr (), ix\<lparr>ix_docs := (ix_docs ix)(i := None)\<rparr>)))"

text \<open>
  The inherited \<open>Document.update\<close>: for action index the document is built first, so the
  \<open>ValueError\<close> of a product without image comes before any call to the engine; for
  action delete only the id is sent.
\<close>

definition Document_update ::
  "engine_faults \<Rightarrow> product \<Rightarrow> action \<Rightarrow> bool \<Rightarrow> es_index \<Rightarrow> (es_error + unit) \<times> es_index" where
  "Document_update env thing act raise_on_error ix =
     (case act of
        Index \<Rightarrow>
          (case prepare thing of
             Inl e \<Rightarrow> (Inl e, ix)
           | Inr d \<Rightarrow> es_bulk env raise_on_error (Index_doc d) ix)
      | Delete \<Rightarrow> es_bulk env raise_on_error (Delete_doc (prod_id thing)) ix)"

text \<open>
  \<open>ProductDocument.update\<close>: nothing in test mode, the inherited update otherwise.
  \<open>raise_on_error\<close> is the keyword argument passed on in \<open>kwargs\<close>.
\<close>

definition ProductDocument_update ::
  "bool \<Rightarrow> engine_faults \<Rightarrow> product \<Rightarrow> action \<Rightarrow> bool \<Rightarrow> es_index
   \<Rightarrow> (es_error + unit) \<times> es_index" where
  "ProductDocument_update test_mode env thing act raise_on_error ix =
     (if test_mode then (Inr (), ix)
      else Document_update env thing act raise_on_error ix)"

text \<open>
  The exception, if any, with which the upsert of a product ends outside test mode: the
  \<open>ValueError\<close> of a product without image, otherwise what the engine does wrong for its id.
\<close>

definition upsert_error :: "engine_faults \<Rightarrow> product \<Rightarrow> es_error option" where
  "upsert_error env p =
     (case prepare p of
        Inl e \<Rightarrow> Some e
      | Inr d \<Rightarrow> map_of (fault_upsert env) (prod_id p))"

text \<open>
  The registry calls of catalog/models.py. \<open>ProductDocument\<close> is the one document
  registered for \<open>Product\<close> (\<open>@registry.register_document\<close>), so \<open>registry.update\<close> is its
  \<open>update\<close> with action index and \<open>registry.delete\<close> its \<open>update\<close> with action delete and the
  given \<open>raise_on_error\<close>. No document declares related models, so
  \<open>registry.update_related\<close> finds nothing to update.
\<close>

definition registry_update ::
  "bool \<Rightarrow> engine_faults \<Rightarrow> product \<Rightarrow> es_index \<Rightarrow> (es_error + unit) \<times> es_index" where
  "registry_update test_mode env instance ix =
     ProductDocument_update test_mode env instance Index True ix"

definition registry_update_related ::
  "bool \<Rightarrow> engine_faults \<Rightarrow> product \<Rightarrow> es_index \<Rightarrow> (es_error + unit) \<times> es_index" where
  "registry_update_related test_mode env instance ix = (Inr (), ix)"

definition registry_delete ::
  "bool \<Rightarrow> engine_faults \<Rightarrow> product \<Rightarrow> bool \<Rightarrow> es_index \<Rightarrow> (es_error + unit) \<times> es_index" where
  "registry_delete test_mode env instance raise_on_error ix =
     ProductDocument_update test_mode env instance Delete raise_on_error ix"


section \<open>The signal handlers (catalog/models.py)\<close>

text \<open>
  The three handlers exist only when \<open>'test'\<close> is not in \<open>sys.argv\<close>, so the test-mode check
  of \<open>ProductDocument.update\<close> is false inside them. A handler's result is the exception
  it raises (\<open>Inl\<close>) or its normal return, with the index as the engine then holds it. None
  of them has a \<open>try\<close>.
\<close>

definition index_product ::
  "engine_faults \<Rightarrow> product \<Rightarrow> es_index \<Rightarrow> (es_error + unit) \<times> es_index" where
  "index_product env instance ix =
     (case registry_update False env instance ix of
        (Inl e, ix') \<Rightarrow> (Inl e, ix')
      | (Inr u, ix') \<Rightarrow> registry_update_related False env instance ix')"

definition delete_product ::
  "engine_faults \<Rightarrow> product \<Rightarrow> es_index \<Rightarrow> (es_error + unit) \<times> es_index" where
  "delete_product env instance ix = registry_delete False env instance False ix"

text \<open>The \<open>for\<close> loop of \<open>update_products_on_category_change\<close>, then the handler.\<close>

fun update_each ::
  "engine_faults \<Rightarrow> product list \<Rightarrow> es_index \<Rightarrow> (es_error + unit) \<times> es_index" where
  "update_each env [] ix = (Inr (), ix)"
| "update_each env (p # ps) ix =
     (case registry_update False env p ix of
        (Inl e, ix') \<Rightarrow> (Inl e, ix')
      | (Inr u, ix') \<Rightarrow> update_each env ps ix')"

definition update_products_on_category_change ::
  "engine_faults \<Rightarrow> database \<Rightarrow> category \<Rightarrow> es_index \<Rightarrow> (es_error + unit) \<times> es_index" where
  "update_products_on_category_change env db instance ix =
     update_each env (products_all db instance) ix"


section \<open>The full rebuild (catalog/management/commands/populate_es.py)\<close>

text \<open>
  What \<open>handle\<close> writes to \<open>self.stdout\<close>, one constructor per message:
  ``Deleting existing Elasticsearch index...'', ``Index deleted successfully'',
  ``Creating new Elasticsearch index...'', ``Index created successfully'',
  ``Fetching products from database...'', ``Found n products to index'',
  ``Indexing products in Elasticsearch...'', ``Indexed n products...'',
  ``Error indexing product id: e'', ``Successfully indexed n products'' and
  ``Note: n products failed to index''.
\<close>

datatype report_line =
    Deleting_index
  | Index_deleted
  | Creating_index
  | Index_created
  | Fetching_products
  | Found_products int
  | Indexing_products
  | Indexed_progress int
  | Error_indexing int es_error
  | Successfully_indexed int
  | Failed_note int

text \<open>The \<open>for\<close> loop of \<open>handle\<close>: the counter, the index and the output so far.\<close>

fun index_each ::
  "bool \<Rightarrow> engine_faults \<Rightarrow> product list \<Rightarrow> int \<Rightarrow> es_index \<Rightarrow> report_line list
   \<Rightarrow> int \<times> es_index \<times> report_line list" where
  "index_each test_mode env [] indexed_count ix out = (indexed_count, ix, out)"
| "index_each test_mode env (p # ps) indexed_count ix out =
     (case ProductDocument_update test_mode env p Index True ix of
        (Inr u, ix') \<Rightarrow>
          (let indexed_count = indexed_count + 1;
               out = (if indexed_count mod 100 = 0 then out @ [Indexed_progress indexed_count]
                      else out)
           in index_each test_mode env ps indexed_count ix' out)
      | (Inl e, ix') \<Rightarrow>
          index_each test_mode env ps indexed_count ix' (out @ [Error_indexing (prod_id p) e]))"

definition handle ::
  "bool \<Rightarrow> engine_faults \<Rightarrow> database \<Rightarrow> es_index
   \<Rightarrow> (es_error + unit) \<times> es_index \<times> report_line list" where
  "handle test_mode env db ix =
     (let out = [Deleting_index] in
      case es_index_delete env [404] ix of
        Inl e \<Rightarrow> (Inl e, ix, out)
      | Inr ix \<Rightarrow>
          (let out = out @ [Index_deleted, Creating_index] in
           case es_index_create env ix of
             Inl e \<Rightarrow> (Inl e, ix, out)
           | Inr ix \<Rightarrow>
               (let out = out @ [Index_created, Fetching_products];
                    products = db_products db;
                    out = out @ [Found_products (int (length products)), Indexing_products];
                    (indexed_count, ix, out) = index_each test_mode env products 0 ix out;
                    out = out @ [Successfully_indexed indexed_count];
                    out = (if indexed_count < int (length products)
                           then out @ [Failed_note (int (length products) - indexed_count)]
                           else out)
                in (Inr (), ix, out))))"


section \<open>How the engine reads a filter\<close>

text \<open>
  Modelled from the spec: the engine's evaluation of a query is outside the repository.
  Spec 4.3: a terms filter restricts to the documents whose \<open>category_id\<close> is in the given
  set; a range filter on price uses the bounds that are present and is open on a missing
  side. Floats of two-place decimals compare as the decimals do.
\<close>

fun float_le :: "pyfloat \<Rightarrow> pyfloat \<Rightarrow> bool" where
  "float_le (Float a) (Float b) = (a \<le> b)"

fun filter_accepts :: "es_filter \<Rightarrow> search_document \<Rightarrow> bool" where
  "filter_accepts (Terms_category_id ids) d = (doc_category_id d \<in> set ids)"
| "filter_accepts (Range_price r) d =
     ((case gte r of None \<Rightarrow> True | Some lo \<Rightarrow> float_le lo (doc_price d))
      \<and> (case lte r of None \<Rightarrow> True | Some hi \<Rightarrow> float_le (doc_price d) hi))"

definition search_accepts :: "search \<Rightarrow> search_document \<Rightarrow> bool" where
  "search_accepts s d = list_all (\<lambda>f. filter_accepts f d) (s_filters s)"


section \<open>Example inputs\<close>

text \<open>
  Concrete conversions for the examples. On ASCII text \<open>ascii_strip\<close> agrees with
  \<open>str.strip()\<close> (whitespace there: the code points 9--13 and 28--32); \<open>ascii_int\<close> agrees
  with \<open>int()\<close> and the \<open>IntegerField\<close> on signed ASCII digit strings; \<open>ascii_decimal\<close> agrees
  with the \<open>DecimalField\<close> on unsigned numerals with no or two decimal places.
\<close>

definition is_space :: "char \<Rightarrow> bool" where
  "is_space c = (let n = (of_char c :: nat) in (9 \<le> n \<and> n \<le> 13) \<or> (28 \<le> n \<and> n \<le> 32))"

definition ascii_strip :: "string \<Rightarrow> string" where
  "ascii_strip x = rev (dropWhile is_space (rev (dropWhile is_space x)))"

definition digit_val :: "char \<Rightarrow> int option" where
  "digit_val c = (let n = (of_char c :: nat) in if 48 \<le> n \<and> n \<le> 57 then Some (int n - 48) else None)"

fun digits_int :: "int \<Rightarrow> string \<Rightarrow> int option" where
  "digits_int acc [] = Some acc"
| "digits_int acc (c # cs) =
     (case digit_val c of None \<Rightarrow> None | Some d \<Rightarrow> digits_int (10 * acc + d) cs)"

definition ascii_int :: "string \<Rightarrow> int option" where
  "ascii_int x =
     (case x of
        [] \<Rightarrow> None
      | c # cs \<Rightarrow>
          if c = CHR ''-'' then (if cs = [] then None else map_option uminus (digits_int 0 cs))
          else if c = CHR ''+'' then (if cs = [] then None else digits_int 0 cs)
          else digits_int 0 (c # cs))"

definition ascii_decimal :: "string \<Rightarrow> decimal option" where
  "ascii_decimal x =
     (case split_on CHR ''.'' x of
        [w] \<Rightarrow> if w = [] then None else map_option (\<lambda>n. 100 * n) (digits_int 0 w)
      | [w, f] \<Rightarrow>
          if w = [] \<or> length f \<noteq> 2 then None
          else (case digits_int 0 w of
                  None \<Rightarrow> None
                | Some a \<Rightarrow> map_option (\<lambda>b. 100 * a + b) (digits_int 0 f))
      | _ \<Rightarrow> None)"

definition ex_conversions :: conversions where
  "ex_conversions = \<lparr>char_value = Some, decimal_value = ascii_decimal,
                     integer_value = ascii_int, str_strip = ascii_strip,
                     int_of_str = ascii_int\<rparr>"

text \<open>
  Requests with the price bounds 100.00 and 50.00 the wrong way round: one with nothing
  else, one with the page 0 as well; and a request with the lower bound alone.
\<close>

definition ex_request :: query_params where
  "ex_request = \<lparr>qp_q = None, qp_category = None, qp_price_min = None, qp_price_max = None,
                 qp_sort = None, qp_page = None, qp_page_size = None\<rparr>"

definition ex_request_reversed :: query_params where
  "ex_request_reversed = ex_request\<lparr>qp_price_min := Some ''100.00'', qp_price_max := Some ''50.00''\<rparr>"

definition ex_request_reversed_page_0 :: query_params where
  "ex_request_reversed_page_0 = ex_request_reversed\<lparr>qp_page := Some ''0''\<rparr>"

definition ex_request_min_only :: query_params where
  "ex_request_min_only = ex_request\<lparr>qp_price_min := Some ''100.00''\<rparr>"

text \<open>A query for page 2 of size 5, and an engine that reports 12 matches.\<close>

definition ex_query :: validated_data where
  "ex_query = \<lparr>vd_q = Some ''phone'', vd_category = None, vd_price_min = None,
               vd_price_max = None, vd_sort = Some ''relevance'', vd_page = Some 2,
               vd_page_size = Some 5\<rparr>"

definition ex_answer :: "pyfloat es_response" where
  "ex_answer = \<lparr>er_total = Total_object 12 ''eq'', er_hits = []\<rparr>"

definition ex_execute :: "search \<Rightarrow> es_error + pyfloat es_response" where
  "ex_execute s = Inr ex_answer"


text \<open>The same query with each sort mode, with and without free text.\<close>

definition ex_query_price_asc :: validated_data where
  "ex_query_price_asc = ex_query\<lparr>vd_sort := Some ''price_asc''\<rparr>"

definition ex_query_price_desc :: validated_data where
  "ex_query_price_desc = ex_query\<lparr>vd_sort := Some ''price_desc''\<rparr>"

definition ex_query_no_text :: validated_data where
  "ex_query_no_text = ex_query\<lparr>vd_q := Some []\<rparr>"

text \<open>Price bounds 100.00 and 50.00 the wrong way round, and a lower bound alone.\<close>

definition ex_query_bad_prices :: validated_data where
  "ex_query_bad_prices = ex_query\<lparr>vd_price_min := Some 10000, vd_price_max := Some 5000\<rparr>"

definition ex_query_min_only :: validated_data where
  "ex_query_min_only = ex_query\<lparr>vd_price_min := Some 10000\<rparr>"



text \<open>
  A category with three products that each have an image, the category renamed, a
  product without image, a document of the category, and an index with no documents.
\<close>

definition ex_category :: category where
  "ex_category = \<lparr>cat_id = 1, cat_name = ''Phones'', cat_description = [], cat_image = None\<rparr>"

definition ex_category_renamed :: category where
  "ex_category_renamed = ex_category\<lparr>cat_name := ''Smartphones''\<rparr>"

definition ex_product :: "int \<Rightarrow> product" where
  "ex_product i = \<lparr>prod_id = i, prod_category = ex_category, prod_name = ''Phone'',
                   prod_price = 9999, prod_image = Some ''/media/products/phone.jpg'',
                   prod_description = []\<rparr>"

definition ex_product_no_image :: product where
  "ex_product_no_image = (ex_product 4)\<lparr>prod_image := None\<rparr>"

definition ex_document :: search_document where
  "ex_document = \<lparr>doc_id = 1, doc_name = ''Phone'', doc_description = [],
                  doc_price = Float 9999, doc_category = (1, ''Phones''),
                  doc_category_id = 1, doc_image = ''/media/products/phone.jpg''\<rparr>"

definition ex_db :: database where
  "ex_db = \<lparr>db_categories = [ex_category],
            db_products = [ex_product 1, ex_product 2, ex_product 3]\<rparr>"

definition ex_db_no_image :: database where
  "ex_db_no_image = \<lparr>db_categories = [ex_category], db_products = [ex_product_no_image]\<rparr>"

definition ex_index :: es_index where
  "ex_index = \<lparr>ix_exists = True, ix_docs = Map.empty\<rparr>"

text \<open>An engine that answers every call, and one that cannot take the upsert of product 2.\<close>

definition ex_engine_ok :: engine_faults where
  "ex_engine_ok = \<lparr>fault_index_delete = None, fault_index_create = None,
                   fault_upsert = [], fault_delete = []\<rparr>"

definition ex_engine_flaky :: engine_faults where
  "ex_engine_flaky = \<lparr>fault_index_delete = None, fault_index_create = None,
                      fault_upsert = [(2, ConnectionError)], fault_delete = []\<rparr>"


section \<open>The search view: what is proved\<close>

subsection \<open>The parts of the built search\<close>

lemma build_search_filters:
  "s_filters (build_search ps a) =
     (if dict_get (vd_category a) [] \<noteq> [] then [Terms_category_id (dict_get (vd_category a) [])] else [])
     @ (if vd_price_min a \<noteq> None \<or> vd_price_max a \<noteq> None
        then [Range_price \<lparr>gte = map_option Float (vd_price_min a),
                           lte = map_option Float (vd_price_max a)\<rparr>]
        else [])"
  by (auto simp: build_search_def Let_def search_slice_def search_sort_def search_filter_def
      search_query_def ProductDocument_search_def)

lemma build_search_sort:
  "s_sort (build_search ps a) =
     (if vd_sort a = Some ''price_asc'' then [Asc ''price'']
      else if vd_sort a = Some ''price_desc'' then [Desc ''price'']
      else if dict_get (vd_q a) [] = [] then [Asc ''id'']
      else [])"
  by (simp add: build_search_def Let_def search_slice_def search_sort_def search_filter_def
      search_query_def ProductDocument_search_def)

subsection \<open>Validated queries\<close>

text \<open>
  A request the serializer accepts gives a valid query, when the default page size is
  itself between 1 and the maximum.
\<close>

lemma run_validation_valid:
  assumes "run_validation F mx ps req = Inr a" and "1 \<le> ps" and "ps \<le> mx"
  shows "valid_search_query mx a"
proof -
  from assms(1) obtain attrs where t: "to_internal_value F mx ps req = Inr attrs"
    and v: "validate attrs = Inr a"
    by (auto simp: run_validation_def split: sum.splits validation_error.splits)
  from v have eq: "a = attrs" by (auto simp: validate_def Let_def split: if_splits)
  define q where "q = field_value (qp_q req) (Some []) (char_value F)"
  define pmin where "pmin = field_value (qp_price_min req) None (price_field F)"
  define pmax where "pmax = field_value (qp_price_max req) None (price_field F)"
  define srt where "srt = field_value (qp_sort req) (Some ''relevance'') sort_field"
  define pg where "pg = field_value (qp_page req) (Some 1) (page_field F)"
  define pgs where "pgs = field_value (qp_page_size req) (Some ps) (page_size_field F mx)"
  from t have errs: "field_error ''q'' q = []" "field_error ''price_min'' pmin = []"
    "field_error ''price_max'' pmax = []" "field_error ''sort'' srt = []"
    "field_error ''page'' pg = []" "field_error ''page_size'' pgs = []"
    and vals: "vd_q attrs = field_option q" "vd_price_min attrs = field_option pmin"
    "vd_price_max attrs = field_option pmax" "vd_sort attrs = field_option srt"
    "vd_page attrs = field_option pg" "vd_page_size attrs = field_option pgs"
    unfolding q_def pmin_def pmax_def srt_def pg_def pgs_def
    by (auto simp: to_internal_value_def Let_def split: if_splits)
  have 1: "vd_q attrs \<noteq> None"
    using errs(1) vals(1) unfolding q_def
    by (auto simp: field_error_def field_value_def field_option_def split: option.splits)
  have 2: "case vd_sort attrs of None \<Rightarrow> False | Some s \<Rightarrow> s \<in> set SORT_CHOICES"
    using errs(4) vals(4) unfolding srt_def
    by (auto simp: field_error_def field_value_def field_option_def sort_field_def
        SORT_CHOICES_def split: option.splits if_splits)
  have 3: "case vd_page attrs of None \<Rightarrow> False | Some p \<Rightarrow> 1 \<le> p"
    using errs(5) vals(5) unfolding pg_def
    by (auto simp: field_error_def field_value_def field_option_def page_field_def
        split: option.splits if_splits)
  have 4: "case vd_page_size attrs of None \<Rightarrow> False | Some n \<Rightarrow> 1 \<le> n \<and> n \<le> mx"
    using errs(6) vals(6) assms(2,3) unfolding pgs_def
    by (auto simp: field_error_def field_value_def field_option_def page_size_field_def
        split: option.splits if_splits)
  have 5: "case vd_price_min attrs of None \<Rightarrow> True | Some m \<Rightarrow> 0 \<le> m"
    using errs(2) vals(2) unfolding pmin_def
    by (auto simp: field_error_def field_value_def field_option_def price_field_def
        split: option.splits if_splits)
  have 6: "case vd_price_max attrs of None \<Rightarrow> True | Some m \<Rightarrow> 0 \<le> m"
    using errs(3) vals(3) unfolding pmax_def
    by (auto simp: field_error_def field_value_def field_option_def price_field_def
        split: option.splits if_splits)
  show ?thesis
    unfolding eq valid_search_query_def using 1 2 3 4 5 6 v eq by simp
qed

subsection \<open>Pagination flags\<close>

lemma mult_pos_iff_page:
  fixes p n :: int
  assumes "1 \<le> p" "1 \<le> n"
  shows "(0 < (p - 1) * n) = (1 < p)"
proof
  assume "0 < (p - 1) * n"
  then show "1 < p" using assms by (simp add: zero_less_mult_iff)
next
  assume "1 < p"
  then show "0 < (p - 1) * n" using assms by (simp add: zero_less_mult_iff)
qed

text \<open>
  Claim C1. For a valid query with page \<open>p\<close> and page size \<open>n\<close>, and an engine that
  answers, the response exists, its \<open>has_prev\<close> is true exactly when the window start
  \<open>(p - 1) * n\<close> is positive, and its \<open>has_next\<close> is true exactly when window start plus
  page size is below the response's total count; outside test mode the search is sliced
  at that window and the count is the engine's total.
\<close>

theorem search_pagination_flags:
  assumes "valid_search_query mx data"
    and "\<not> test_mode \<longrightarrow> execute (build_search ps data) = Inr r"
  shows "\<exists>resp p n. vd_page data = Some p \<and> vd_page_size data = Some n
           \<and> ProductSearchView_get test_mode ps execute data = Inr resp
           \<and> s_slice (build_search ps data) = Some ((p - 1) * n, (p - 1) * n + n)
           \<and> rs_count resp = (if test_mode then 0 else hits_total_value (er_total r))
           \<and> rs_has_prev resp = ((p - 1) * n > 0)
           \<and> rs_has_next resp = ((p - 1) * n + n < rs_count resp)"
proof -
  from assms(1) obtain p n where pn: "vd_page data = Some p" "vd_page_size data = Some n"
    and bounds: "1 \<le> p" "1 \<le> n"
    by (auto simp: valid_search_query_def split: option.splits)
  have sl: "s_slice (build_search ps data) = Some ((p - 1) * n, (p - 1) * n + n)"
    by (simp add: build_search_def Let_def search_slice_def dict_get_def pn)
  have nonneg: "0 \<le> (p - 1) * n" using bounds by simp
  show ?thesis
  proof (cases test_mode)
    case True
    have "\<not> ((p - 1) * n + n < 0)" using nonneg bounds by linarith
    then show ?thesis
      using True pn sl mult_pos_iff_page[OF bounds]
      by (simp add: ProductSearchView_get_def Let_def dict_get_def)
  next
    case False
    with assms(2) have ex: "execute (build_search ps data) = Inr r" by simp
    show ?thesis
      using False pn sl ex
      by (simp add: ProductSearchView_get_def Let_def dict_get_def)
  qed
qed

theorem search_pagination_flags_witness:
  "valid_search_query 100 ex_query
   \<and> ProductSearchView_get False 20 ex_execute ex_query
       = Inr \<lparr>rs_count = 12, rs_page = 2, rs_page_size = 5, rs_has_next = True,
              rs_has_prev = True, rs_results = []\<rparr>"
proof -
  have v: "valid_search_query 100 ex_query"
    by (simp add: valid_search_query_def ex_query_def SORT_CHOICES_def validate_def)
  have e: "\<not> False \<longrightarrow> ex_execute (build_search 20 ex_query) = Inr ex_answer"
    by (simp add: ex_execute_def)
  from search_pagination_flags[where test_mode = False and execute = ex_execute and ps = 20
      and r = ex_answer, OF v e] obtain resp where
    "ProductSearchView_get False 20 ex_execute ex_query = Inr resp"
    by blast
  then show ?thesis
    using v
    by (simp add: ProductSearchView_get_def ex_execute_def ex_answer_def ex_query_def
        dict_get_def hits_total_value_def Let_def)
qed

subsection \<open>Sort order\<close>

text \<open>
  Claim C4. For a valid query the built search sorts by ascending \<open>price\<close> for
  \<open>price_asc\<close>, by descending \<open>price\<close> for \<open>price_desc\<close>, carries no sort clause (the
  engine ranks by relevance) for \<open>relevance\<close> with free text, and sorts by ascending \<open>id\<close>
  for \<open>relevance\<close> with empty free text; a valid sort is one of the three.
\<close>

theorem search_sort_order:
  assumes "valid_search_query mx data"
  shows "(vd_sort data = Some ''price_asc'' \<longrightarrow> s_sort (build_search ps data) = [Asc ''price''])
       \<and> (vd_sort data = Some ''price_desc'' \<longrightarrow> s_sort (build_search ps data) = [Desc ''price''])
       \<and> (vd_sort data = Some ''relevance'' \<and> vd_q data \<noteq> Some []
            \<longrightarrow> s_sort (build_search ps data) = [])
       \<and> (vd_sort data = Some ''relevance'' \<and> vd_q data = Some []
            \<longrightarrow> s_sort (build_search ps data) = [Asc ''id''])
       \<and> vd_sort data \<in> {Some ''price_asc'', Some ''price_desc'', Some ''relevance''}"
proof -
  from assms obtain q where q: "vd_q data = Some q"
    by (auto simp: valid_search_query_def)
  from assms have "vd_sort data \<in> {Some ''price_asc'', Some ''price_desc'', Some ''relevance''}"
    by (auto simp: valid_search_query_def SORT_CHOICES_def split: option.splits)
  then show ?thesis
    using q by (auto simp: build_search_sort dict_get_def)
qed

theorem search_sort_order_witness:
  "valid_search_query 100 ex_query \<and> valid_search_query 100 ex_query_price_asc
   \<and> valid_search_query 100 ex_query_price_desc \<and> valid_search_query 100 ex_query_no_text
   \<and> s_sort (build_search 20 ex_query_price_asc) = [Asc ''price'']
   \<and> s_sort (build_search 20 ex_query_price_desc) = [Desc ''price'']
   \<and> s_sort (build_search 20 ex_query) = []
   \<and> s_sort (build_search 20 ex_query_no_text) = [Asc ''id'']"
proof -
  have v1: "valid_search_query 100 ex_query"
    by (simp add: valid_search_query_def ex_query_def SORT_CHOICES_def validate_def)
  have v2: "valid_search_query 100 ex_query_price_asc"
    by (simp add: valid_search_query_def ex_query_price_asc_def ex_query_def SORT_CHOICES_def
        validate_def)
  have v3: "valid_search_query 100 ex_query_price_desc"
    by (simp add: valid_search_query_def ex_query_price_desc_def ex_query_def SORT_CHOICES_def
        validate_def)
  have v4: "valid_search_query 100 ex_query_no_text"
    by (simp add: valid_search_query_def ex_query_no_text_def ex_query_def SORT_CHOICES_def
        validate_def)
  have "s_sort (build_search 20 ex_query_price_asc) = [Asc ''price'']"
    using search_sort_order[OF v2, of 20] by (simp add: ex_query_price_asc_def)
  moreover have "s_sort (build_search 20 ex_query_price_desc) = [Desc ''price'']"
    using search_sort_order[OF v3, of 20] by (simp add: ex_query_price_desc_def)
  moreover have "s_sort (build_search 20 ex_query) = []"
    using search_sort_order[OF v1, of 20] by (simp add: ex_query_def)
  moreover have "s_sort (build_search 20 ex_query_no_text) = [Asc ''id'']"
    using search_sort_order[OF v4, of 20] by (simp add: ex_query_no_text_def ex_query_def)
  ultimately show ?thesis using v1 v2 v3 v4 by simp
qed

subsection \<open>Price bounds\<close>

lemma run_validation_field_errors:
  "to_internal_value F mx ps req = Inl names
     \<Longrightarrow> run_validation F mx ps req = Inl (Field_errors names)"
  by (simp add: run_validation_def)

lemma to_internal_value_prices:
  assumes "to_internal_value F mx ps req = Inr a"
  shows "vd_price_min a = field_option (field_value (qp_price_min req) None (price_field F))"
    and "vd_price_max a = field_option (field_value (qp_price_max req) None (price_field F))"
  using assms by (auto simp: to_internal_value_def Let_def split: if_splits)

text \<open>
  Claim C5, as the code has it. A request whose two price bounds convert to
  \<open>price_min > price_max\<close> is always rejected. When every field passes its own check the
  error is the one that names the price relation, reported under \<open>non_field_errors\<close>;
  when some field fails, \<open>validate\<close> is not reached and the error names the failing fields
  instead. \<open>validate\<close> itself rejects reversed bounds whatever the other attributes hold.
  With at most one bound present \<open>validate\<close> accepts, and the built search has a price
  range filter exactly when a bound is present, with \<open>gte\<close> and \<open>lte\<close> set from the bounds
  that are present and the other side left out.
\<close>

theorem price_bounds_validation:
  "(field_value (qp_price_min req) None (price_field F) = Value lo
      \<and> field_value (qp_price_max req) None (price_field F) = Value hi \<and> lo > hi
      \<longrightarrow> (\<exists>e. run_validation F mx ps req = Inl e)
          \<and> (\<forall>attrs. to_internal_value F mx ps req = Inr attrs
                \<longrightarrow> run_validation F mx ps req
                    = Inl (Non_field_errors ''price_min must be <= price_max''))
          \<and> (\<forall>names. to_internal_value F mx ps req = Inl names
                \<longrightarrow> run_validation F mx ps req = Inl (Field_errors names)))
   \<and> (vd_price_min a = Some lo \<and> vd_price_max a = Some hi \<and> lo > hi
      \<longrightarrow> validate a = Inl (ValidationError ''price_min must be <= price_max''))
   \<and> (vd_price_min a = None \<or> vd_price_max a = None
      \<longrightarrow> validate a = Inr a
          \<and> (Range_price r \<in> set (s_filters (build_search ps a))
               \<longleftrightarrow> (vd_price_min a \<noteq> None \<or> vd_price_max a \<noteq> None)
                   \<and> r = \<lparr>gte = map_option Float (vd_price_min a),
                           lte = map_option Float (vd_price_max a)\<rparr>))"
proof -
  have pipeline: "(\<exists>e. run_validation F mx ps req = Inl e)
          \<and> (\<forall>attrs. to_internal_value F mx ps req = Inr attrs
                \<longrightarrow> run_validation F mx ps req
                    = Inl (Non_field_errors ''price_min must be <= price_max''))
          \<and> (\<forall>names. to_internal_value F mx ps req = Inl names
                \<longrightarrow> run_validation F mx ps req = Inl (Field_errors names))"
    if lo: "field_value (qp_price_min req) None (price_field F) = Value lo"
      and hi: "field_value (qp_price_max req) None (price_field F) = Value hi"
      and rev: "lo > hi"
  proof -
    have passed: "run_validation F mx ps req
                    = Inl (Non_field_errors ''price_min must be <= price_max'')"
      if t: "to_internal_value F mx ps req = Inr attrs" for attrs
    proof -
      from to_internal_value_prices[OF t] lo hi
      have "vd_price_min attrs = Some lo" "vd_price_max attrs = Some hi"
        by (simp_all add: field_option_def)
      with rev have "validate attrs = Inl (ValidationError ''price_min must be <= price_max'')"
        by (simp add: validate_def)
      with t show ?thesis by (simp add: run_validation_def)
    qed
    have "\<exists>e. run_validation F mx ps req = Inl e"
    proof (cases "to_internal_value F mx ps req")
      case (Inl names)
      then show ?thesis by (simp add: run_validation_field_errors)
    next
      case (Inr attrs)
      then show ?thesis by (simp add: passed)
    qed
    then show ?thesis
      using passed run_validation_field_errors by blast
  qed
  have obj: "vd_price_min a = Some lo \<and> vd_price_max a = Some hi \<and> lo > hi
      \<longrightarrow> validate a = Inl (ValidationError ''price_min must be <= price_max'')"
    by (simp add: validate_def)
  have one: "vd_price_min a = None \<or> vd_price_max a = None
      \<longrightarrow> validate a = Inr a
          \<and> (Range_price r \<in> set (s_filters (build_search ps a))
               \<longleftrightarrow> (vd_price_min a \<noteq> None \<or> vd_price_max a \<noteq> None)
                   \<and> r = \<lparr>gte = map_option Float (vd_price_min a),
                           lte = map_option Float (vd_price_max a)\<rparr>)"
    by (auto simp: validate_def build_search_filters)
  show ?thesis
    using pipeline obj one by blast
qed

lemma ex_reversed_conversions:
  "field_value (qp_price_min ex_request_reversed) None (price_field ex_conversions) = Value 10000"
  "field_value (qp_price_max ex_request_reversed) None (price_field ex_conversions) = Value 5000"
  by (simp_all add: field_value_def price_field_def ex_request_reversed_def ex_request_def
      ex_conversions_def ascii_decimal_def digit_val_def)

theorem price_bounds_validation_witness:
  "run_validation ex_conversions 100 20 ex_request_reversed
     = Inl (Non_field_errors ''price_min must be <= price_max'')
   \<and> validate ex_query_bad_prices = Inl (ValidationError ''price_min must be <= price_max'')
   \<and> validate ex_query_min_only = Inr ex_query_min_only
   \<and> Range_price \<lparr>gte = Some (Float 10000), lte = None\<rparr>
       \<in> set (s_filters (build_search 20 ex_query_min_only))"
proof -
  have fields: "to_internal_value ex_conversions 100 20 ex_request_reversed
          = Inr \<lparr>vd_q = Some [], vd_category = None, vd_price_min = Some 10000,
                 vd_price_max = Some 5000, vd_sort = Some ''relevance'', vd_page = Some 1,
                 vd_page_size = Some 20\<rparr>"
    by (simp add: to_internal_value_def Let_def field_value_def field_option_def
        field_error_def price_field_def ex_request_reversed_def ex_request_def
        ex_conversions_def ascii_decimal_def digit_val_def)
  have rev: "(10000::int) > 5000" by simp
  have "run_validation ex_conversions 100 20 ex_request_reversed
          = Inl (Non_field_errors ''price_min must be <= price_max'')"
    using price_bounds_validation[of ex_request_reversed ex_conversions 10000 5000 100 20]
      ex_reversed_conversions fields rev
    by blast
  moreover have "validate ex_query_bad_prices
                   = Inl (ValidationError ''price_min must be <= price_max'')"
    using price_bounds_validation[of _ _ 10000 5000 _ _ ex_query_bad_prices]
    by (simp add: ex_query_bad_prices_def ex_query_def)
  moreover have "validate ex_query_min_only = Inr ex_query_min_only
     \<and> Range_price \<lparr>gte = Some (Float 10000), lte = None\<rparr>
       \<in> set (s_filters (build_search 20 ex_query_min_only))"
    using price_bounds_validation[of _ _ _ _ _ 20 ex_query_min_only
        "\<lparr>gte = Some (Float 10000), lte = None\<rparr>"]
    by (simp add: ex_query_min_only_def ex_query_def)
  ultimately show ?thesis by simp
qed

text \<open>
  Claim C5 as stated fails: with the page 0 beside the reversed bounds the request is
  rejected for the page alone, and the error does not name the price relation.
\<close>

theorem price_bounds_validation_counterexample:
  "field_value (qp_price_min ex_request_reversed_page_0) None (price_field ex_conversions)
     = Value 10000
   \<and> field_value (qp_price_max ex_request_reversed_page_0) None (price_field ex_conversions)
     = Value 5000
   \<and> run_validation ex_conversions 100 20 ex_request_reversed_page_0
     = Inl (Field_errors [''page''])"
  by (simp add: run_validation_def to_internal_value_def Let_def field_value_def
      field_option_def field_error_def price_field_def page_field_def
      ex_request_reversed_page_0_def ex_request_reversed_def ex_request_def
      ex_conversions_def ascii_decimal_def ascii_int_def digit_val_def)

subsection \<open>Category filter\<close>

text \<open>
  Claim C6. For a non-empty validated category list the built search has the terms
  filter on \<open>category_id\<close> with that list, every document the search accepts has its
  \<open>category_id\<close> among the ids, and a second query whose list has the same set of ids
  (and the same price bounds) accepts exactly the same documents.
\<close>

theorem category_filter_set_semantics:
  assumes "vd_category d1 = Some cs1" "vd_category d2 = Some cs2"
    and "cs1 \<noteq> []" "set cs1 = set cs2"
    and "vd_price_min d2 = vd_price_min d1" "vd_price_max d2 = vd_price_max d1"
  shows "Terms_category_id cs1 \<in> set (s_filters (build_search ps d1))
       \<and> (search_accepts (build_search ps d1) doc \<longrightarrow> doc_category_id doc \<in> set cs1)
       \<and> search_accepts (build_search ps d2) doc = search_accepts (build_search ps d1) doc"
proof -
  from assms(3,4) have "cs2 \<noteq> []" by auto
  then show ?thesis
    using assms
    by (simp add: build_search_filters search_accepts_def dict_get_def)
qed

theorem category_filter_set_semantics_witness:
  "validate_category ascii_strip ascii_int (Some ''1,2,2'') = Inr [1, 2, 2]
   \<and> validate_category ascii_strip ascii_int (Some ''2, 1'') = Inr [2, 1]
   \<and> search_accepts (build_search 20 (ex_query\<lparr>vd_category := Some [1, 2, 2]\<rparr>))
        ex_document
   \<and> search_accepts (build_search 20 (ex_query\<lparr>vd_category := Some [2, 1]\<rparr>))
        ex_document"
proof -
  have p1: "validate_category ascii_strip ascii_int (Some ''1,2,2'') = Inr [1, 2, 2]"
    by (simp add: validate_category_def ascii_strip_def is_space_def ascii_int_def digit_val_def)
  have p2: "validate_category ascii_strip ascii_int (Some ''2, 1'') = Inr [2, 1]"
    by (simp add: validate_category_def ascii_strip_def is_space_def ascii_int_def digit_val_def)
  have a: "search_accepts (build_search 20 (ex_query\<lparr>vd_category := Some [1, 2, 2]\<rparr>))
        ex_document"
    by (simp add: search_accepts_def build_search_filters dict_get_def ex_query_def
        ex_document_def)
  have "search_accepts (build_search 20 (ex_query\<lparr>vd_category := Some [2, 1]\<rparr>))
          ex_document
        = search_accepts (build_search 20 (ex_query\<lparr>vd_category := Some [1, 2, 2]\<rparr>))
          ex_document"
  proof -
    have c1: "vd_category (ex_query\<lparr>vd_category := Some [1, 2, 2]\<rparr>) = Some [1, 2, 2]"
      and c2: "vd_category (ex_query\<lparr>vd_category := Some [2, 1]\<rparr>) = Some [2, 1]"
      and ne: "[1, 2, 2] \<noteq> ([] :: int list)"
      and lo: "vd_price_min (ex_query\<lparr>vd_category := Some [2, 1]\<rparr>)
               = vd_price_min (ex_query\<lparr>vd_category := Some [1, 2, 2]\<rparr>)"
      and hi: "vd_price_max (ex_query\<lparr>vd_category := Some [2, 1]\<rparr>)
               = vd_price_max (ex_query\<lparr>vd_category := Some [1, 2, 2]\<rparr>)"
      by simp_all
    have same: "set [1, 2, 2 :: int] = set [2, 1]" by auto
    from category_filter_set_semantics[OF c1 c2 ne same lo hi, of 20 ex_document]
    show ?thesis by blast
  qed
  with a p1 p2 show ?thesis by simp
qed

subsection \<open>Result projection\<close>

text \<open>
  What the view emits for a hit: \<open>description\<close> and \<open>image\<close> as the hit's source has them,
  \<open>None\<close> when the source lacks them, because the read of a declared field never takes
  the default \<open>""\<close>; the score as \<open>meta.score\<close> has it, \<open>None\<close> when it is missing. When the
  engine answers, the response lists one item per hit in the engine's order and its
  count is the engine's total, whether a plain number or an object with a value.
\<close>

lemma item_of_hit_fields:
  "it_description (item_of_hit h) = hit_description h"
  "it_image (item_of_hit h) = hit_image h"
  "it_score (item_of_hit h) = (case hit_meta_score h of Absent \<Rightarrow> None | Attr v \<Rightarrow> v)"
  by (simp_all add: item_of_hit_def getattr_def Document_getattr_def split: attr.splits)

lemma result_projection_general:
  assumes "execute (build_search ps data) = Inr r"
  shows "\<exists>resp. ProductSearchView_get False ps execute data = Inr resp
           \<and> rs_results resp = map item_of_hit (er_hits r)
           \<and> rs_count resp = (case er_total r of Total_scalar n \<Rightarrow> n | Total_object v rel \<Rightarrow> v)"
  using assms
  by (auto simp: ProductSearchView_get_def Let_def hits_total_value_def
      split: hits_total.splits)


section \<open>The category serializer: what is proved\<close>

text \<open>
  Claim C10. \<open>validate_name\<close> rejects exactly the names some stored category already
  has, whatever \<open>self.instance\<close> is; so an update of a stored category that keeps its own
  name is rejected as a duplicate.
\<close>

theorem validate_name_rejects_existing:
  "validate_name db instance value
     = (if value \<in> cat_name ` set (db_categories db)
        then Inl (ValidationError ''A category with this name already exists'')
        else Inr value)
   \<and> (c \<in> set (db_categories db)
        \<longrightarrow> validate_name db (Some c) (cat_name c)
            = Inl (ValidationError ''A category with this name already exists''))"
  by (auto simp: validate_name_def list_ex_iff)

theorem validate_name_rejects_existing_witness:
  "ex_category \<in> set (db_categories ex_db)
   \<and> validate_name ex_db (Some ex_category) ''Phones''
       = Inl (ValidationError ''A category with this name already exists'')"
proof -
  have m: "ex_category \<in> set (db_categories ex_db)" by (simp add: ex_db_def)
  have n: "cat_name ex_category = ''Phones''" by (simp add: ex_category_def)
  have "validate_name ex_db (Some ex_category) (cat_name ex_category)
          = Inl (ValidationError ''A category with this name already exists'')"
    using validate_name_rejects_existing[of ex_db "Some ex_category" "cat_name ex_category"
        ex_category] m
    by blast
  with m n show ?thesis by simp
qed

section \<open>The signal handlers: what is proved\<close>

lemma upsert_error_cases:
  "upsert_error env p =
     (if prod_image p = None then Some ValueError else map_of (fault_upsert env) (prod_id p))"
  by (simp add: upsert_error_def prepare_def split: option.splits)

lemma prepare_fields:
  "prepare p = Inr d \<Longrightarrow>
     doc_id d = prod_id p
     \<and> doc_category d = (cat_id (prod_category p), cat_name (prod_category p))"
  by (auto simp: prepare_def split: option.splits)

lemma Document_update_index:
  "Document_update env p Index True ix =
     (case prepare p of
        Inl e \<Rightarrow> (Inl e, ix)
      | Inr d \<Rightarrow>
          (case map_of (fault_upsert env) (prod_id p) of
             Some e \<Rightarrow> (Inl e, ix)
           | None \<Rightarrow> (Inr (), ix\<lparr>ix_exists := True,
                                   ix_docs := (ix_docs ix)(prod_id p \<mapsto> d)\<rparr>)))"
  by (auto simp: Document_update_def es_bulk_def bulk_error_def dest: prepare_fields
      split: sum.splits option.splits)

lemma registry_update_fails:
  "upsert_error env p = Some e \<Longrightarrow> registry_update False env p ix = (Inl e, ix)"
  by (auto simp: registry_update_def ProductDocument_update_def Document_update_index
      upsert_error_def split: sum.splits)

lemma registry_update_ok:
  "upsert_error env p = None \<Longrightarrow> prepare p = Inr d \<Longrightarrow>
     registry_update False env p ix
       = (Inr (), ix\<lparr>ix_exists := True, ix_docs := (ix_docs ix)(prod_id p \<mapsto> d)\<rparr>)"
  by (simp add: registry_update_def ProductDocument_update_def Document_update_index
      upsert_error_def)

lemma upsert_error_None_prepare:
  "upsert_error env p = None \<Longrightarrow> \<exists>d. prepare p = Inr d"
  by (cases "prepare p") (simp_all add: upsert_error_def)

text \<open>
  Claim C2, as the code has it. The post-save handler of \<open>Product\<close> builds the product's
  search document and upserts it. When building it fails (a product without image) or
  the engine fails on the upsert, the handler raises that error to its caller and
  leaves the index as it was. It has no access to the relational store.
\<close>

theorem index_product_outcome:
  "index_product env p ix =
     (case prepare p of
        Inl e \<Rightarrow> (Inl e, ix)
      | Inr d \<Rightarrow>
          (case map_of (fault_upsert env) (prod_id p) of
             Some e \<Rightarrow> (Inl e, ix)
           | None \<Rightarrow> (Inr (), ix\<lparr>ix_exists := True,
                                   ix_docs := (ix_docs ix)(prod_id p \<mapsto> d)\<rparr>)))"
  by (simp add: index_product_def registry_update_def ProductDocument_update_def
      Document_update_index registry_update_related_def split: sum.splits option.splits)

theorem index_product_outcome_witness:
  "fst (index_product ex_engine_ok (ex_product 1) ex_index) = Inr ()
   \<and> ix_docs (snd (index_product ex_engine_ok (ex_product 1) ex_index)) 1 = Some ex_document"
  using index_product_outcome[of ex_engine_ok "ex_product 1" ex_index]
  by (simp add: ex_engine_ok_def ex_product_def prepare_def ex_document_def ex_category_def)

text \<open>
  Claim C2 as stated fails: for a product with an image and an engine that cannot take
  the upsert of product 2, the handler raises \<open>ConnectionError\<close>.
\<close>

theorem index_product_raises_counterexample:
  "prod_image (ex_product 2) = Some ''/media/products/phone.jpg''
   \<and> index_product ex_engine_flaky (ex_product 2) ex_index = (Inl ConnectionError, ex_index)"
  by (simp add: index_product_def registry_update_def ProductDocument_update_def
      Document_update_def prepare_def es_bulk_def bulk_error_def ex_engine_flaky_def
      ex_product_def)

text \<open>A product without image never reaches the engine: the handler raises \<open>ValueError\<close>.\<close>

lemma index_product_without_image:
  "prod_image p = None \<Longrightarrow> index_product env p ix = (Inl ValueError, ix)"
  by (simp add: index_product_def registry_update_def ProductDocument_update_def
      Document_update_def prepare_def)

text \<open>
  What \<open>raise_on_error=False\<close> buys: with the client's default, deleting a document that is
  not in the index raises.
\<close>

lemma registry_delete_missing_raises_by_default:
  assumes "map_of (fault_delete env) (prod_id p) = None" and "ix_docs ix (prod_id p) = None"
  shows "registry_delete False env p True ix = (Inl BulkIndexError, ix)"
  using assms
  by (simp add: registry_delete_def ProductDocument_update_def Document_update_def
      es_bulk_def bulk_error_def)

text \<open>
  Claim C7. When the engine answers the delete call, the post-delete handler returns
  normally and the product's document is gone from the index; if the document was
  already absent the index is unchanged and nothing is raised.
\<close>

theorem delete_product_idempotent:
  assumes "map_of (fault_delete env) (prod_id p) = None"
  shows "delete_product env p ix = (Inr (), ix\<lparr>ix_docs := (ix_docs ix)(prod_id p := None)\<rparr>)
       \<and> (ix_docs ix (prod_id p) = None \<longrightarrow> delete_product env p ix = (Inr (), ix))"
proof -
  have idem: "ix_docs ix (prod_id p) = None \<Longrightarrow> (ix_docs ix)(prod_id p := None) = ix_docs ix"
    by (rule fun_upd_idem) simp
  show ?thesis
    using assms idem
    by (auto simp: delete_product_def registry_delete_def ProductDocument_update_def
        Document_update_def es_bulk_def bulk_error_def)
qed

theorem delete_product_idempotent_witness:
  "map_of (fault_delete ex_engine_ok) (prod_id (ex_product 1)) = None
   \<and> ix_docs ex_index (prod_id (ex_product 1)) = None
   \<and> delete_product ex_engine_ok (ex_product 1) ex_index = (Inr (), ex_index)"
proof -
  have f: "map_of (fault_delete ex_engine_ok) (prod_id (ex_product 1)) = None"
    by (simp add: ex_engine_ok_def)
  have a: "ix_docs ex_index (prod_id (ex_product 1)) = None"
    by (simp add: ex_index_def)
  from delete_product_idempotent[OF f, of ex_index] a
  have "delete_product ex_engine_ok (ex_product 1) ex_index = (Inr (), ex_index)"
    by blast
  with f a show ?thesis by simp
qed

lemma update_each_append:
  "update_each env (xs @ ys) ix =
     (case update_each env xs ix of
        (Inl e, ix') \<Rightarrow> (Inl e, ix')
      | (Inr u, ix') \<Rightarrow> update_each env ys ix')"
  by (induction xs arbitrary: ix) (auto split: prod.splits sum.splits)

lemma update_each_ok:
  assumes "\<forall>p\<in>set ps. upsert_error env p = None"
    and "distinct (map prod_id ps)"
  shows "fst (update_each env ps ix) = Inr ()
       \<and> (\<forall>p\<in>set ps. map_option Inr (ix_docs (snd (update_each env ps ix)) (prod_id p))
                         = Some (prepare p))
       \<and> (\<forall>i. i \<notin> prod_id ` set ps \<longrightarrow> ix_docs (snd (update_each env ps ix)) i = ix_docs ix i)"
  using assms
proof (induction ps arbitrary: ix)
  case Nil
  then show ?case by simp
next
  case (Cons p ps)
  from Cons.prems have ok: "upsert_error env p = None" by simp
  then obtain d where d: "prepare p = Inr d" using upsert_error_None_prepare by blast
  let ?ix1 = "ix\<lparr>ix_exists := True, ix_docs := (ix_docs ix)(prod_id p \<mapsto> d)\<rparr>"
  have step: "update_each env (p # ps) ix = update_each env ps ?ix1"
    by (simp add: registry_update_ok[OF ok d])
  from Cons.prems have ih_prems: "\<forall>q\<in>set ps. upsert_error env q = None"
    "distinct (map prod_id ps)" and fresh: "prod_id p \<notin> prod_id ` set ps"
    by auto
  note ih = Cons.IH[OF ih_prems, of ?ix1]
  show ?case
    unfolding step using ih fresh d by auto
qed

lemma products_all_ids:
  "map prod_id (products_all db instance)
     = map prod_id (filter (\<lambda>p. cat_id (prod_category p) = cat_id instance) (db_products db))"
  by (simp add: products_all_def comp_def)

lemma products_all_distinct:
  "distinct (map prod_id (db_products db)) \<Longrightarrow> distinct (map prod_id (products_all db instance))"
  unfolding products_all_ids by (rule distinct_map_filter)

lemma products_all_category:
  "p \<in> set (products_all db instance) \<Longrightarrow> prod_category p = instance"
  by (auto simp: products_all_def)

text \<open>
  Claim C3, as the code has it. With product ids distinct, the post-save handler of
  \<open>Category\<close> upserts the category's products in order, each with the saved category's
  id and name. It stops at the first product whose upsert fails (\<open>upsert_error\<close>: the
  product has no image, or the engine fails for it) and raises that error: the products
  before it are re-indexed and every other document is as it was. When no upsert fails,
  every product of the category is re-indexed.
\<close>

theorem category_change_reindex:
  assumes "distinct (map prod_id (db_products db))"
    and "products_all db instance = before @ rest"
    and "\<forall>p\<in>set before. upsert_error env p = None"
    and "case rest of [] \<Rightarrow> True | p # ps \<Rightarrow> upsert_error env p \<noteq> None"
  shows "\<exists>ix'. update_products_on_category_change env db instance ix
                = ((case rest of [] \<Rightarrow> Inr ()
                    | p # ps \<Rightarrow> Inl (the (upsert_error env p))), ix')
           \<and> (\<forall>p\<in>set before. \<exists>d. prepare p = Inr d \<and> ix_docs ix' (prod_id p) = Some d
                 \<and> doc_category d = (cat_id instance, cat_name instance))
           \<and> (\<forall>i. i \<notin> prod_id ` set before \<longrightarrow> ix_docs ix' i = ix_docs ix i)
           \<and> (rest = [] \<longrightarrow>
                (\<forall>p\<in>set (db_products db). cat_id (prod_category p) = cat_id instance
                   \<longrightarrow> (\<exists>d. prepare (p\<lparr>prod_category := instance\<rparr>) = Inr d
                            \<and> ix_docs ix' (prod_id p) = Some d)))"
proof -
  from products_all_distinct[OF assms(1), of "instance"] assms(2)
  have dist: "distinct (map prod_id before)" by simp
  obtain r ix1 where run: "update_each env before ix = (r, ix1)" by (cases "update_each env before ix")
  from update_each_ok[OF assms(3) dist, of ix] run
  have r: "r = Inr ()"
    and docs: "\<forall>p\<in>set before. map_option Inr (ix_docs ix1 (prod_id p)) = Some (prepare p)"
    and others: "\<forall>i. i \<notin> prod_id ` set before \<longrightarrow> ix_docs ix1 i = ix_docs ix i"
    by simp_all
  have indexed: "\<exists>d. prepare p = Inr d \<and> ix_docs ix1 (prod_id p) = Some d
                 \<and> doc_category d = (cat_id instance, cat_name instance)"
    if p: "p \<in> set before" for p
  proof -
    from docs p obtain d where d: "ix_docs ix1 (prod_id p) = Some d" "prepare p = Inr d"
      by (cases "ix_docs ix1 (prod_id p)") auto
    from p have "p \<in> set (products_all db instance)" using assms(2) by simp
    then have "prod_category p = instance" by (rule products_all_category)
    with prepare_fields[OF d(2)] d show ?thesis by simp
  qed
  have result: "update_products_on_category_change env db instance ix
                = ((case rest of [] \<Rightarrow> Inr ()
                    | p # ps \<Rightarrow> Inl (the (upsert_error env p))), ix1)"
  proof (cases rest)
    case Nil
    then show ?thesis
      using run r by (simp add: update_products_on_category_change_def assms(2))
  next
    case (Cons p ps)
    with assms(4) obtain e where e: "upsert_error env p = Some e" by auto
    show ?thesis
      using run r Cons e
      by (simp add: update_products_on_category_change_def assms(2) update_each_append
          registry_update_fails[OF e])
  qed
  have every: "rest = [] \<longrightarrow>
                (\<forall>p\<in>set (db_products db). cat_id (prod_category p) = cat_id instance
                   \<longrightarrow> (\<exists>d. prepare (p\<lparr>prod_category := instance\<rparr>) = Inr d
                            \<and> ix_docs ix1 (prod_id p) = Some d))"
  proof (intro impI ballI)
    fix p assume "rest = []" and p: "p \<in> set (db_products db)"
      and c: "cat_id (prod_category p) = cat_id instance"
    then have "p\<lparr>prod_category := instance\<rparr> \<in> set before"
      using assms(2) by (auto simp: products_all_def)
    from indexed[OF this]
    show "\<exists>d. prepare (p\<lparr>prod_category := instance\<rparr>) = Inr d \<and> ix_docs ix1 (prod_id p) = Some d"
      by auto
  qed
  show ?thesis
    using result indexed others every by blast
qed

theorem category_change_reindex_witness:
  "distinct (map prod_id (db_products ex_db))
   \<and> fst (update_products_on_category_change ex_engine_flaky ex_db ex_category_renamed ex_index)
       = Inl ConnectionError
   \<and> ix_docs (snd (update_products_on_category_change ex_engine_flaky ex_db
                     ex_category_renamed ex_index)) 1
       = Some (ex_document\<lparr>doc_category := (1, ''Smartphones'')\<rparr>)"
proof -
  let ?p = "\<lambda>i. (ex_product i)\<lparr>prod_category := ex_category_renamed\<rparr>"
  have d: "distinct (map prod_id (db_products ex_db))"
    by (simp add: ex_db_def ex_product_def)
  have ps: "products_all ex_db ex_category_renamed = [?p 1] @ [?p 2, ?p 3]"
    by (simp add: products_all_def ex_db_def ex_product_def ex_category_renamed_def
        ex_category_def)
  have ok: "\<forall>p\<in>set [?p 1]. upsert_error ex_engine_flaky p = None"
    by (simp add: upsert_error_cases ex_engine_flaky_def ex_product_def)
  have bad: "case [?p 2, ?p 3] of [] \<Rightarrow> True
             | p # ps \<Rightarrow> upsert_error ex_engine_flaky p \<noteq> None"
    by (simp add: upsert_error_cases ex_engine_flaky_def ex_product_def)
  from category_change_reindex[OF d ps ok bad, of ex_index] obtain ix' dd where
    r: "update_products_on_category_change ex_engine_flaky ex_db ex_category_renamed ex_index
          = (Inl (the (upsert_error ex_engine_flaky (?p 2))), ix')"
    and docs: "prepare (?p 1) = Inr dd" "ix_docs ix' (prod_id (?p 1)) = Some dd"
    by auto
  have "the (upsert_error ex_engine_flaky (?p 2)) = ConnectionError"
    by (simp add: upsert_error_cases ex_engine_flaky_def ex_product_def)
  moreover have "prod_id (?p 1) = 1" by (simp add: ex_product_def)
  moreover have "dd = ex_document\<lparr>doc_category := (1, ''Smartphones'')\<rparr>"
    using docs(1)
    by (simp add: prepare_def ex_product_def ex_document_def ex_category_renamed_def
        ex_category_def)
  ultimately show ?thesis using d r docs by simp
qed

text \<open>
  Claim C3 as stated fails: the three products have an image; when the upsert of
  product 2 fails, the handler raises and product 3, whose upsert would succeed, is not
  re-indexed.
\<close>

theorem category_change_aborts_counterexample:
  "fst (update_products_on_category_change ex_engine_flaky ex_db ex_category_renamed ex_index)
     = Inl ConnectionError
   \<and> upsert_error ex_engine_flaky ((ex_product 3)\<lparr>prod_category := ex_category_renamed\<rparr>) = None
   \<and> ix_docs (snd (update_products_on_category_change ex_engine_flaky ex_db
                     ex_category_renamed ex_index)) 3 = None"
  by (simp add: update_products_on_category_change_def products_all_def ex_db_def
      ex_category_renamed_def ex_category_def ex_product_def registry_update_def
      ProductDocument_update_def Document_update_def prepare_def upsert_error_def
      es_bulk_def bulk_error_def ex_engine_flaky_def ex_index_def)

section \<open>The full rebuild: what is proved\<close>










text \<open>
  A product without image fails in the loop with \<open>ValueError\<close> and is counted as failed.
\<close>

lemma full_rebuild_without_image:
  "snd (snd (handle False ex_engine_ok ex_db_no_image ex_index))
     = [Deleting_index, Index_deleted, Creating_index, Index_created, Fetching_products,
        Found_products 1, Indexing_products, Error_indexing 4 ValueError,
        Successfully_indexed 0, Failed_note 1]"
  by (simp add: handle_def es_index_delete_def es_index_create_def ex_engine_ok_def
      ex_db_no_image_def ex_product_no_image_def ex_index_def ex_product_def
      ProductDocument_update_def Document_update_def prepare_def es_bulk_def bulk_error_def
      Let_def)

end
